theory Spec2Isabelle
  imports
    Complex_Main
    "HOL-Library.Multiset"
    "HOL-Library.Sublist"
    "HOL-Library.Char_ord"
    "HOL-Library.List_Lexorder"
begin

section \<open>The host environment\<close>

text \<open>
  The dashboard runs in a browser. What the browser contributes and the repository does not
  define is kept apart from the translated code:
  \<^item> exceptions are values of \<open>js_error\<close>; \<open>Error m\<close> is \<open>new Error(m)\<close> as thrown by
    \<open>fetchCoins\<close> (with \<open>None\<close> for a thrown value whose \<open>message\<close> is nullish), the other
    constructors are the exceptions raised by built-ins;
  \<^item> \<open>localeCompare\<close>, \<open>JSON.parse\<close>, \<open>JSON.stringify\<close> and the wording of the engine's
    own exception messages are fields of a \<open>host\<close> record, so that every theorem holds for
    whatever the host computes. \<open>JSON.parse\<close> is read at the two types the state declares
    for persisted values (a string, an array of strings); a stored text that parses to a
    value of another JavaScript type is outside this typed model.
  Strings are sequences of code units; \<open>char\<close> covers the code units \<open>0x00\<close> to \<open>0xFF\<close>.
  Numbers are the finite values the Data Source normalises to, as \<open>real\<close>: on finite
  numbers the sign of a difference \<open>a - b\<close> is the sign of the exact difference.
\<close>

datatype js_error = Error "string option" | TypeError | SyntaxError | SecurityError | QuotaExceededError

record host =
  localeCompare :: "string \<Rightarrow> string \<Rightarrow> real"
  JSON_parse_string :: "string \<Rightarrow> js_error + string"
  JSON_parse_strings :: "string \<Rightarrow> js_error + string list"
  JSON_stringify_string :: "string \<Rightarrow> string"
  JSON_stringify_strings :: "string list \<Rightarrow> string"
  engine_message :: "js_error \<Rightarrow> string"

subsection \<open>String built-ins used by the pipeline\<close>

text \<open>\<open>String.prototype.toLowerCase\<close> on the code units \<open>0x00\<close> to \<open>0xFF\<close>: \<open>A\<close> to \<open>Z\<close> and
  \<open>0xC0\<close> to \<open>0xDE\<close> (without the multiplication sign \<open>0xD7\<close>) move up by \<open>0x20\<close>, which on
  these ranges is setting bit 5.\<close>

fun add_0x20 :: "char \<Rightarrow> char" where
  "add_0x20 (Char b0 b1 b2 b3 b4 b5 b6 b7) = Char b0 b1 b2 b3 b4 True b6 b7"

definition toLowerCase_unit :: "char \<Rightarrow> char" where
  "toLowerCase_unit c =
     (let n = (of_char c :: nat)
      in if (65 \<le> n \<and> n \<le> 90) \<or> (192 \<le> n \<and> n \<le> 222 \<and> n \<noteq> 215)
         then add_0x20 c else c)"

definition toLowerCase :: "string \<Rightarrow> string" where
  "toLowerCase s = map toLowerCase_unit s"

text \<open>\<open>String.prototype.trim\<close>: white space and line terminators are removed from both
  ends (TAB, LF, VT, FF, CR, SP, NBSP in this range of code units).\<close>

definition isWhiteSpace :: "char \<Rightarrow> bool" where
  "isWhiteSpace c = (of_char c \<in> set [9, 10, 11, 12, 13, 32, 160 :: nat])"

definition trim :: "string \<Rightarrow> string" where
  "trim s = rev (dropWhile isWhiteSpace (rev (dropWhile isWhiteSpace s)))"

text \<open>\<open>s.includes(q)\<close>: \<open>q\<close> occurs in \<open>s\<close> at some position.\<close>

fun String_includes :: "string \<Rightarrow> string \<Rightarrow> bool" where
  "String_includes [] q = (q = [])"
| "String_includes (c # cs) q = (prefix q (c # cs) \<or> String_includes cs q)"

subsection \<open>Objects and \<open>Array.prototype.sort\<close>\<close>

text \<open>
  A property read \<open>obj[key]\<close> on an object literal finds an own property, or else a property
  of \<open>Object.prototype\<close>, or else \<open>undefined\<close>. The object literal is its list of own
  properties; the names below are the properties of \<open>Object.prototype\<close>.
\<close>

datatype 'v property = Own 'v | Inherited string | Undefined

definition Object_prototype :: "string list" where
  "Object_prototype =
     [''constructor'', ''__defineGetter__'', ''__defineSetter__'', ''hasOwnProperty'',
      ''__lookupGetter__'', ''__lookupSetter__'', ''isPrototypeOf'', ''propertyIsEnumerable'',
      ''toString'', ''valueOf'', ''__proto__'', ''toLocaleString'']"

definition get_property :: "(string \<times> 'v) list \<Rightarrow> string \<Rightarrow> 'v property" where
  "get_property obj key =
     (case map_of obj key of
        Some v \<Rightarrow> Own v
      | None \<Rightarrow> if key \<in> set Object_prototype then Inherited key else Undefined)"

text \<open>
  The sort of the runtime is stable, and for a consistent comparator its result is the one
  stable arrangement, which insertion from the right computes: an element goes in front of
  the first element it does not exceed.
\<close>

fun insert_by :: "('a \<Rightarrow> 'a \<Rightarrow> real) \<Rightarrow> 'a \<Rightarrow> 'a list \<Rightarrow> 'a list" where
  "insert_by cmp x [] = [x]"
| "insert_by cmp x (y # ys) = (if cmp x y \<le> 0 then x # y # ys else y # insert_by cmp x ys)"

definition stable_sort :: "('a \<Rightarrow> 'a \<Rightarrow> real) \<Rightarrow> 'a list \<Rightarrow> 'a list" where
  "stable_sort cmp xs = foldr (insert_by cmp) xs []"

text \<open>
  \<open>xs.sort(comparefn)\<close> on an array of plain objects, for the values a property read can
  hand it:
  \<^item> a comparator of the module: the stable sort;
  \<^item> \<open>undefined\<close>: the default order compares the elements as strings, and every plain
    object is the same string, so the order stays;
  \<^item> \<open>__proto__\<close> reads \<open>Object.prototype\<close> itself, which is not callable: \<open>TypeError\<close>;
  \<^item> \<open>constructor\<close> and \<open>toString\<close> return a value that converts to \<open>NaN\<close>, which the sort
    takes as \<open>+0\<close>: every pair ties and the order stays;
  \<^item> the other functions of \<open>Object.prototype\<close> convert their \<open>this\<close>, which is \<open>undefined\<close>
    in a comparator call, to an object: \<open>TypeError\<close> at the first comparison, and there is
    one as soon as the array has two elements.
\<close>

definition Array_sort :: "('a \<Rightarrow> 'a \<Rightarrow> real) property \<Rightarrow> 'a list \<Rightarrow> js_error + 'a list" where
  "Array_sort comparefn xs =
     (case comparefn of
        Own cmp \<Rightarrow> Inr (stable_sort cmp xs)
      | Undefined \<Rightarrow> Inr xs
      | Inherited p \<Rightarrow>
          if p = ''__proto__'' then Inl TypeError
          else if p = ''constructor'' \<or> p = ''toString'' then Inr xs
          else if length xs < 2 then Inr xs
          else Inl TypeError)"

section \<open>Data model\<close>

text \<open>\<open>CoinData\<close> of \<open>API.js\<close>; the fields \<open>id\<close> and \<open>image\<close> carry a prime.\<close>

record CoinData =
  id' :: string
  symbol :: string
  name :: string
  image' :: string
  current_price :: real
  market_cap :: real
  market_cap_rank :: real
  total_volume :: real
  high_24h :: real
  low_24h :: real
  price_change_percentage_24h :: real
  circulating_supply :: real

text \<open>\<open>AppState\<close> of \<open>App.js\<close>. \<open>sortBy\<close>, \<open>sortOrder\<close> and \<open>theme\<close> are strings: the
  code stores what the Preference Store or the page hands it.\<close>

record State =
  allCoins :: "CoinData list"
  favorites :: "string list"
  searchQuery :: string
  sortBy :: string
  sortOrder :: string
  theme :: string
  watchlistOnly :: bool
  isLoading :: bool

section \<open>The functional data pipeline\<close>

type_synonym comparator = "CoinData \<Rightarrow> CoinData \<Rightarrow> real"

definition getSorter :: "host \<Rightarrow> string \<Rightarrow> string \<Rightarrow> comparator property" where
  "getSorter h field order =
     (let direction = (if order = ''asc'' then 1 else - 1);
          comparators =
            [(''market_cap'', \<lambda>a b. direction * (market_cap a - market_cap b)),
             (''price'', \<lambda>a b. direction * (current_price a - current_price b)),
             (''change'', \<lambda>a b. direction *
                 (price_change_percentage_24h a - price_change_percentage_24h b)),
             (''name'', \<lambda>a b. direction * localeCompare h (name a) (name b)),
             (''volume'', \<lambda>a b. direction * (total_volume a - total_volume b))]
      in case get_property comparators field of
           Undefined \<Rightarrow> get_property comparators ''market_cap''
         | found \<Rightarrow> found)"

definition deriveVisibleCoins :: "host \<Rightarrow> State \<Rightarrow> js_error + CoinData list" where
  "deriveVisibleCoins h S =
     (let query = trim (toLowerCase (searchQuery S));
          searched = filter (\<lambda>coin.
              if query = [] then True
              else String_includes (toLowerCase (name coin)) query \<or>
                   String_includes (toLowerCase (symbol coin)) query) (allCoins S);
          watchlisted =
            (if watchlistOnly S
             then filter (\<lambda>coin. id' coin \<in> set (favorites S)) searched
             else searched)
      in Array_sort (getSorter h (sortBy S) (sortOrder S)) watchlisted)"

section \<open>The Preference Store\<close>

text \<open>
  \<open>localStorage\<close>: the stored texts, and the two ways the browser refuses: every access
  raises when storage is blocked for the page, a write raises when the quota is used up.
\<close>

record Storage =
  items :: "string \<rightharpoonup> string"
  blocked :: bool
  full :: bool

definition getItem :: "Storage \<Rightarrow> string \<Rightarrow> js_error + string option" where
  "getItem st key = (if blocked st then Inl SecurityError else Inr (items st key))"

definition setItem :: "Storage \<Rightarrow> string \<Rightarrow> string \<Rightarrow> js_error + Storage" where
  "setItem st key text =
     (if blocked st then Inl SecurityError
      else if full st then Inl QuotaExceededError
      else Inr (st\<lparr>items := (items st)(key \<mapsto> text)\<rparr>))"

definition FAVORITES :: string where "FAVORITES = ''nexus_favorites''"
definition THEME :: string where "THEME = ''nexus_theme''"
definition SORT_BY :: string where "SORT_BY = ''nexus_sort_by''"
definition SORT_ORDER :: string where "SORT_ORDER = ''nexus_sort_order''"

text \<open>The body of the \<open>try\<close> block of \<open>loadFromStorage\<close>, and the function with its
  \<open>catch\<close>. The parser is \<open>JSON.parse\<close> at the type of the value read.\<close>

definition loadFromStorage_try ::
  "(string \<Rightarrow> js_error + 'a) \<Rightarrow> Storage \<Rightarrow> string \<Rightarrow> 'a \<Rightarrow> js_error + 'a" where
  "loadFromStorage_try parse st key defaultValue =
     (case getItem st key of
        Inl e \<Rightarrow> Inl e
      | Inr raw \<Rightarrow> (case raw of Some text \<Rightarrow> parse text | None \<Rightarrow> Inr defaultValue))"

definition loadFromStorage ::
  "(string \<Rightarrow> js_error + 'a) \<Rightarrow> Storage \<Rightarrow> string \<Rightarrow> 'a \<Rightarrow> 'a" where
  "loadFromStorage parse st key defaultValue =
     (case loadFromStorage_try parse st key defaultValue of
        Inr v \<Rightarrow> v
      | Inl e \<Rightarrow> defaultValue)"

text \<open>The initialiser of \<open>State\<close>.\<close>

definition State_init :: "host \<Rightarrow> Storage \<Rightarrow> State" where
  "State_init h st =
     \<lparr>allCoins = [],
      favorites = loadFromStorage (JSON_parse_strings h) st FAVORITES [],
      searchQuery = [],
      sortBy = loadFromStorage (JSON_parse_string h) st SORT_BY ''market_cap'',
      sortOrder = loadFromStorage (JSON_parse_string h) st SORT_ORDER ''desc'',
      theme = loadFromStorage (JSON_parse_string h) st THEME ''dark'',
      watchlistOnly = False,
      isLoading = False\<rparr>"

section \<open>State and event orchestration\<close>

text \<open>
  What a handler does besides changing \<open>State\<close> is recorded, in order, as a list of
  events: the calls into \<open>UI.js\<close> under their own names, the calls of \<open>fetchCoins\<close> and of
  \<open>deriveVisibleCoins\<close>, the writes to elements of the page (which are taken to exist),
  the console, and an exception that leaves a handler uncaught. The text of a notification
  is kept as one constructor per template literal of the source.
\<close>

datatype toast =
    Coins_loaded nat
  | Failed_to_load
  | Removed_from_watchlist string
  | Added_to_watchlist string
  | Mode_enabled string

datatype event =
    Call_fetchCoins
  | Call_deriveVisibleCoins
  | renderSkeletons nat
  | renderCoins "CoinData list" "string list"
  | showError string
  | hideError
  | showWatchlistEmpty
  | showToast toast string
  | updateStats nat nat nat
  | applyTheme string
  | classList_toggle string string bool
  | setAttribute string string string
  | set_hidden string bool
  | set_value string string
  | set_className string string
  | set_title string string
  | focus string
  | console_error js_error
  | console_warn js_error
  | uncaught js_error

record world =
  state :: State
  storage :: Storage
  calls :: "event list"

definition emit :: "event list \<Rightarrow> world \<Rightarrow> world" where
  "emit es w = w\<lparr>calls := calls w @ es\<rparr>"

definition saveToStorage :: "('a \<Rightarrow> string) \<Rightarrow> string \<Rightarrow> 'a \<Rightarrow> world \<Rightarrow> world" where
  "saveToStorage stringify key v w =
     (case setItem (storage w) key (stringify v) of
        Inr st \<Rightarrow> w\<lparr>storage := st\<rparr>
      | Inl err \<Rightarrow> emit [console_warn err] w)"

text \<open>\<open>renderView\<close> returns the exception of \<open>deriveVisibleCoins\<close>, if there is one, to its
  caller.\<close>

definition renderView :: "host \<Rightarrow> world \<Rightarrow> js_error option \<times> world" where
  "renderView h w =
     (let S = state w; w1 = emit [Call_deriveVisibleCoins] w
      in case deriveVisibleCoins h S of
           Inl e \<Rightarrow> (Some e, w1)
         | Inr visible \<Rightarrow>
             (None, emit [renderCoins visible (favorites S),
                          updateStats (length (allCoins S)) (length visible)
                            (length (favorites S))] w1))"

definition leave_handler :: "js_error option \<times> world \<Rightarrow> world" where
  "leave_handler r = (case r of (None, w) \<Rightarrow> w | (Some e, w) \<Rightarrow> emit [uncaught e] w)"

definition setRefreshSpinner :: "bool \<Rightarrow> world \<Rightarrow> world" where
  "setRefreshSpinner active w = emit [classList_toggle ''refreshBtn'' ''spinning'' active] w"

subsection \<open>Data fetching\<close>

text \<open>
  \<open>loadData\<close> suspends at \<open>await fetchCoins()\<close>. \<open>loadData_call\<close> is the part before the
  suspension once the guard has let the call through, \<open>loadData_resume\<close> the part that runs
  when the promise is settled; \<open>loadData\<close> is the call with nothing in between.
\<close>

datatype settled = Resolved "CoinData list" | Rejected js_error

definition message :: "host \<Rightarrow> js_error \<Rightarrow> string option" where
  "message h err = (case err of Error m \<Rightarrow> m | _ \<Rightarrow> Some (engine_message h err))"

definition loadData_catch :: "host \<Rightarrow> js_error \<Rightarrow> world \<Rightarrow> world" where
  "loadData_catch h err w =
     emit [showError (case message h err of Some m \<Rightarrow> m | None \<Rightarrow> ''An unknown error occurred.''),
           showToast Failed_to_load ''danger'',
           console_error err] w"

definition loadData_call :: "world \<Rightarrow> world" where
  "loadData_call w =
     emit [renderSkeletons 20, Call_fetchCoins]
       (setRefreshSpinner True (w\<lparr>state := (state w)\<lparr>isLoading := True\<rparr>\<rparr>))"

definition loadData_resume :: "host \<Rightarrow> settled \<Rightarrow> world \<Rightarrow> world" where
  "loadData_resume h outcome w =
     (let w1 =
        (case outcome of
           Resolved coins \<Rightarrow>
             (case renderView h (w\<lparr>state := (state w)\<lparr>allCoins := coins\<rparr>\<rparr>) of
                (None, w2) \<Rightarrow> emit [showToast (Coins_loaded (length coins)) ''success''] w2
              | (Some err, w2) \<Rightarrow> loadData_catch h err w2)
         | Rejected err \<Rightarrow> loadData_catch h err w)
      in setRefreshSpinner False (w1\<lparr>state := (state w1)\<lparr>isLoading := False\<rparr>\<rparr>))"

definition loadData :: "host \<Rightarrow> settled \<Rightarrow> world \<Rightarrow> world" where
  "loadData h outcome w =
     (if isLoading (state w) then w else loadData_resume h outcome (loadData_call w))"

subsection \<open>Favorites and theme\<close>

definition toggleFavorite :: "host \<Rightarrow> string \<Rightarrow> world \<Rightarrow> world" where
  "toggleFavorite h coinId w =
     (let S = state w;
          coinName = (case find (\<lambda>c. id' c = coinId) (allCoins S) of
                        Some coin \<Rightarrow> name coin | None \<Rightarrow> coinId);
          isNowFav = (coinId \<in> set (favorites S));
          w1 = (if isNowFav
                then emit [showToast (Removed_from_watchlist coinName) ''info'']
                       (w\<lparr>state := S\<lparr>favorites := filter (\<lambda>i. i \<noteq> coinId) (favorites S)\<rparr>\<rparr>)
                else emit [showToast (Added_to_watchlist coinName) ''success'']
                       (w\<lparr>state := S\<lparr>favorites := favorites S @ [coinId]\<rparr>\<rparr>));
          w2 = saveToStorage (JSON_stringify_strings h) FAVORITES (favorites (state w1)) w1
      in case renderView h w2 of
           (Some err, w3) \<Rightarrow> emit [uncaught err] w3
         | (None, w3) \<Rightarrow>
             if watchlistOnly (state w3) \<and> length (favorites (state w3)) = 0
             then emit [showWatchlistEmpty] w3
             else w3)"

definition toggleTheme :: "host \<Rightarrow> world \<Rightarrow> world" where
  "toggleTheme h w =
     (let w1 = w\<lparr>state := (state w)\<lparr>theme :=
                   (if theme (state w) = ''dark'' then ''light'' else ''dark'')\<rparr>\<rparr>;
          w2 = emit [applyTheme (theme (state w1))] w1;
          w3 = saveToStorage (JSON_stringify_string h) THEME (theme (state w2)) w2
      in emit [showToast (Mode_enabled (if theme (state w3) = ''dark'' then ''Dark'' else ''Light''))
                 ''info''] w3)"

subsection \<open>Event handlers\<close>

definition String_of_bool :: "bool \<Rightarrow> string" where
  "String_of_bool b = (if b then ''true'' else ''false'')"

definition on_search_input :: "host \<Rightarrow> string \<Rightarrow> world \<Rightarrow> world" where
  "on_search_input h text w =
     (let w1 = w\<lparr>state := (state w)\<lparr>searchQuery := text\<rparr>\<rparr>;
          w2 = emit [set_hidden ''clearSearch'' (length (searchQuery (state w1)) = 0)] w1
      in leave_handler (renderView h w2))"

definition on_clear_search :: "host \<Rightarrow> world \<Rightarrow> world" where
  "on_clear_search h w =
     (let w1 = emit [set_value ''searchInput'' []] w;
          w2 = w1\<lparr>state := (state w1)\<lparr>searchQuery := []\<rparr>\<rparr>;
          w3 = emit [set_hidden ''clearSearch'' True, focus ''searchInput''] w2
      in leave_handler (renderView h w3))"

definition on_sort_change :: "host \<Rightarrow> string \<Rightarrow> world \<Rightarrow> world" where
  "on_sort_change h field w =
     (let w1 = w\<lparr>state := (state w)\<lparr>sortBy := field\<rparr>\<rparr>;
          w2 = saveToStorage (JSON_stringify_string h) SORT_BY (sortBy (state w1)) w1
      in leave_handler (renderView h w2))"

definition on_sort_order_click :: "host \<Rightarrow> world \<Rightarrow> world" where
  "on_sort_order_click h w =
     (let w1 = w\<lparr>state := (state w)\<lparr>sortOrder :=
                   (if sortOrder (state w) = ''desc'' then ''asc'' else ''desc'')\<rparr>\<rparr>;
          w2 = saveToStorage (JSON_stringify_string h) SORT_ORDER (sortOrder (state w1)) w1;
          asc = (sortOrder (state w2) = ''asc'');
          w3 = emit [classList_toggle ''sortOrderBtn'' ''asc'' asc,
                     set_className ''sortOrderIcon''
                       (if asc then ''fa-solid fa-arrow-up-wide-short''
                        else ''fa-solid fa-arrow-down-wide-short''),
                     set_title ''sortOrderBtn'' (if asc then ''Ascending'' else ''Descending'')] w2
      in leave_handler (renderView h w3))"

definition on_watchlist_click :: "host \<Rightarrow> world \<Rightarrow> world" where
  "on_watchlist_click h w =
     (let w1 = w\<lparr>state := (state w)\<lparr>watchlistOnly := \<not> watchlistOnly (state w)\<rparr>\<rparr>;
          on = watchlistOnly (state w1);
          w2 = emit [setAttribute ''watchlistToggle'' ''aria-pressed'' (String_of_bool on),
                     classList_toggle ''watchlistToggle'' ''active-watchlist'' on] w1
      in if on \<and> length (favorites (state w2)) = 0
         then emit [showWatchlistEmpty, updateStats (length (allCoins (state w2))) 0 0] w2
         else leave_handler (renderView h w2))"

definition on_retry_click :: "host \<Rightarrow> settled \<Rightarrow> world \<Rightarrow> world" where
  "on_retry_click h outcome w = loadData h outcome (emit [hideError] w)"

definition on_grid_click :: "host \<Rightarrow> string \<Rightarrow> world \<Rightarrow> world" where
  "on_grid_click h coinId w = (if coinId \<noteq> [] then toggleFavorite h coinId w else w)"

text \<open>The commands of the page, one per listener that changes \<open>State\<close> (the refresh button
  and the 90 second timer both call \<open>loadData\<close>), with what the page or the Data Source
  supplies as argument. The listener for the \<open>/\<close> key only moves the focus.\<close>

datatype command =
    Refresh settled
  | Retry settled
  | SearchInput string
  | ClearSearch
  | SortChange string
  | SortOrderClick
  | WatchlistClick
  | GridClick string
  | ThemeClick

fun exec :: "host \<Rightarrow> command \<Rightarrow> world \<Rightarrow> world" where
  "exec h (Refresh outcome) w = loadData h outcome w"
| "exec h (Retry outcome) w = on_retry_click h outcome w"
| "exec h (SearchInput text) w = on_search_input h text w"
| "exec h ClearSearch w = on_clear_search h w"
| "exec h (SortChange field) w = on_sort_change h field w"
| "exec h SortOrderClick w = on_sort_order_click h w"
| "exec h WatchlistClick w = on_watchlist_click h w"
| "exec h (GridClick coinId) w = on_grid_click h coinId w"
| "exec h ThemeClick w = toggleTheme h w"

definition run :: "host \<Rightarrow> command list \<Rightarrow> world \<Rightarrow> world" where
  "run h cs w = foldl (\<lambda>v c. exec h c v) w cs"

subsection \<open>Initialisation\<close>

definition restoreUIState :: "world \<Rightarrow> world" where
  "restoreUIState w =
     (let S = state w; asc = (sortOrder S = ''asc'')
      in emit [applyTheme (theme S),
               set_value ''sortSelect'' (sortBy S),
               classList_toggle ''sortOrderBtn'' ''asc'' asc,
               set_className ''sortOrderIcon''
                 (if asc then ''fa-solid fa-arrow-up-wide-short''
                  else ''fa-solid fa-arrow-down-wide-short'')] w)"

text \<open>The entry point up to the first suspension: the state is initialised, the page is
  restored, and the first \<open>loadData\<close> is under way.\<close>

definition startup :: "host \<Rightarrow> Storage \<Rightarrow> world" where
  "startup h st =
     loadData_call (restoreUIState \<lparr>state = State_init h st, storage = st, calls = []\<rparr>)"

section \<open>The properties, in the words of the specification\<close>

text \<open>View Derivation, steps 1 and 2: a record is kept iff the trimmed, case-folded query
  is empty or is a substring of the case-folded display name or symbol, and, when
  \<open>watchlistOnly\<close> is set, its identifier is in \<open>favorites\<close>.\<close>

definition passes_filters :: "State \<Rightarrow> CoinData \<Rightarrow> bool" where
  "passes_filters S coin =
     (let q = trim (toLowerCase (searchQuery S))
      in (q = [] \<or> sublist q (toLowerCase (name coin)) \<or> sublist q (toLowerCase (symbol coin)))
         \<and> (watchlistOnly S \<longrightarrow> id' coin \<in> set (favorites S)))"

text \<open>The field comparators of step 3, before the direction is applied: the numeric
  difference on the field, the locale-aware comparison on the display name, and market
  capitalisation for any other field.\<close>

definition field_difference :: "host \<Rightarrow> string \<Rightarrow> CoinData \<Rightarrow> CoinData \<Rightarrow> real" where
  "field_difference h field a b =
     (if field = ''price'' then current_price a - current_price b
      else if field = ''change'' then price_change_percentage_24h a - price_change_percentage_24h b
      else if field = ''name'' then localeCompare h (name a) (name b)
      else if field = ''volume'' then total_volume a - total_volume b
      else market_cap a - market_cap b)"

text \<open>Two records have equal sort-key values under a field.\<close>

definition same_sort_key :: "string \<Rightarrow> CoinData \<Rightarrow> CoinData \<Rightarrow> bool" where
  "same_sort_key field a b =
     (if field = ''price'' then current_price a = current_price b
      else if field = ''change'' then price_change_percentage_24h a = price_change_percentage_24h b
      else if field = ''name'' then name a = name b
      else if field = ''volume'' then total_volume a = total_volume b
      else market_cap a = market_cap b)"

text \<open>A consistent comparison of strings, as a collation is: swapping the arguments swaps
  the sign, and \<open>\<le> 0\<close> is transitive.\<close>

definition consistent :: "(string \<Rightarrow> string \<Rightarrow> real) \<Rightarrow> bool" where
  "consistent lc =
     ((\<forall>a b. (lc a b < 0) = (0 < lc b a)) \<and>
      (\<forall>a b c. lc a b \<le> 0 \<and> lc b c \<le> 0 \<longrightarrow> lc a c \<le> 0))"

text \<open>The enumerations of the data model.\<close>

definition valid_sortBy :: "string \<Rightarrow> bool" where
  "valid_sortBy s = (s \<in> set [''market_cap'', ''price'', ''change'', ''name'', ''volume''])"

definition valid_sortOrder :: "string \<Rightarrow> bool" where
  "valid_sortOrder s = (s \<in> set [''asc'', ''desc''])"

definition valid_theme :: "string \<Rightarrow> bool" where
  "valid_theme s = (s \<in> set [''dark'', ''light''])"

definition valid_preferences :: "State \<Rightarrow> bool" where
  "valid_preferences S = (valid_sortBy (sortBy S) \<and> valid_sortOrder (sortOrder S) \<and> valid_theme (theme S))"

text \<open>The value the Preference Store holds under a key: none when storage cannot be
  read, the key is missing, or the text does not parse.\<close>

definition stored_string :: "host \<Rightarrow> Storage \<Rightarrow> string \<Rightarrow> string option" where
  "stored_string h st key =
     (case getItem st key of
        Inr (Some text) \<Rightarrow> (case JSON_parse_string h text of Inr v \<Rightarrow> Some v | Inl e \<Rightarrow> None)
      | _ \<Rightarrow> None)"

text \<open>A command whose argument from the page is a value of the enumeration.\<close>

fun well_formed :: "command \<Rightarrow> bool" where
  "well_formed (SortChange field) = valid_sortBy field"
| "well_formed c = True"

section \<open>A concrete host and concrete inputs\<close>

text \<open>
  A host for evaluating the definitions: strings compare by code units, and the two
  \<open>JSON\<close> functions are those of the runtime on the texts \<open>JSON.stringify\<close> writes for
  strings without characters that need escaping and for arrays of such strings. On any
  other text \<open>parse_plain_string\<close> and \<open>parse_plain_strings\<close> report \<open>SyntaxError\<close>; they
  are applied here only to texts on which \<open>JSON.parse\<close> does the same.
\<close>

definition codeUnitCompare :: "string \<Rightarrow> string \<Rightarrow> real" where
  "codeUnitCompare a b = (if a < b then - 1 else if a = b then 0 else 1)"

definition plain_unit :: "char \<Rightarrow> bool" where
  "plain_unit c = (c \<noteq> CHR 0x22 \<and> c \<noteq> CHR 0x5C \<and> 32 \<le> (of_char c :: nat))"

definition parse_plain_string :: "string \<Rightarrow> js_error + string" where
  "parse_plain_string text =
     (case text of
        [] \<Rightarrow> Inl SyntaxError
      | c # rest \<Rightarrow>
          if c = CHR 0x22 \<and> rest \<noteq> [] \<and> last rest = CHR 0x22 \<and> list_all plain_unit (butlast rest)
          then Inr (butlast rest) else Inl SyntaxError)"

datatype scan = Element | Inside string | Separator

fun scan_strings :: "scan \<Rightarrow> string list \<Rightarrow> string \<Rightarrow> js_error + string list" where
  "scan_strings Element acc [] = Inl SyntaxError"
| "scan_strings Element acc (c # cs) =
     (if c = CHR 0x22 then scan_strings (Inside []) acc cs else Inl SyntaxError)"
| "scan_strings (Inside s) acc [] = Inl SyntaxError"
| "scan_strings (Inside s) acc (c # cs) =
     (if c = CHR 0x22 then scan_strings Separator (acc @ [s]) cs
      else if plain_unit c then scan_strings (Inside (s @ [c])) acc cs
      else Inl SyntaxError)"
| "scan_strings Separator acc [] = Inr acc"
| "scan_strings Separator acc (c # cs) =
     (if c = CHR '','' then scan_strings Element acc cs else Inl SyntaxError)"

definition parse_plain_strings :: "string \<Rightarrow> js_error + string list" where
  "parse_plain_strings text =
     (case text of
        [] \<Rightarrow> Inl SyntaxError
      | c # rest \<Rightarrow>
          if c = CHR ''['' \<and> rest \<noteq> [] \<and> last rest = CHR '']''
          then (if butlast rest = [] then Inr [] else scan_strings Element [] (butlast rest))
          else Inl SyntaxError)"

definition stringify_plain_string :: "string \<Rightarrow> string" where
  "stringify_plain_string s = CHR 0x22 # s @ [CHR 0x22]"

fun join :: "string list \<Rightarrow> string" where
  "join [] = []"
| "join [s] = s"
| "join (s # t # ts) = s @ '','' @ join (t # ts)"

definition stringify_plain_strings :: "string list \<Rightarrow> string" where
  "stringify_plain_strings xs = ''['' @ join (map stringify_plain_string xs) @ '']''"

definition sample_host :: host where
  "sample_host =
     \<lparr>localeCompare = codeUnitCompare,
      JSON_parse_string = parse_plain_string,
      JSON_parse_strings = parse_plain_strings,
      JSON_stringify_string = stringify_plain_string,
      JSON_stringify_strings = stringify_plain_strings,
      engine_message = (\<lambda>e. ''Cannot convert undefined or null to object'')\<rparr>"

definition sample_coin :: "string \<Rightarrow> string \<Rightarrow> string \<Rightarrow> real \<Rightarrow> CoinData" where
  "sample_coin i s n cap =
     \<lparr>id' = i, symbol = s, name = n, image' = [], current_price = 1, market_cap = cap,
      market_cap_rank = 0, total_volume = 0, high_24h = 0, low_24h = 0,
      price_change_percentage_24h = 0, circulating_supply = 0\<rparr>"

definition Alpha :: CoinData where "Alpha = sample_coin ''a'' ''ALP'' ''Alpha'' 100"
definition Beta :: CoinData where "Beta = sample_coin ''b'' ''BET'' ''Beta'' 50"
definition Gamma :: CoinData where "Gamma = sample_coin ''c'' ''GAM'' ''Gamma'' 100"

definition sample_State :: State where
  "sample_State =
     \<lparr>allCoins = [Beta, Alpha, Gamma], favorites = [''a'', ''b''], searchQuery = '' A '',
      sortBy = ''market_cap'', sortOrder = ''desc'', theme = ''dark'',
      watchlistOnly = True, isLoading = False\<rparr>"

definition empty_Storage :: Storage where
  "empty_Storage = \<lparr>items = Map.empty, blocked = False, full = False\<rparr>"

definition sample_world :: world where
  "sample_world = \<lparr>state = sample_State, storage = empty_Storage, calls = []\<rparr>"

text \<open>No filter is active, and \<open>Alpha\<close> and \<open>Gamma\<close> tie on market capitalisation.\<close>

definition tie_State :: State where
  "tie_State = sample_State\<lparr>searchQuery := [], watchlistOnly := False\<rparr>"

text \<open>A store whose theme entry is not JSON, whose sort field is the JSON string
  \<open>"banana"\<close> and whose sort order is the JSON string \<open>"asc"\<close>.\<close>

definition corrupt_Storage :: Storage where
  "corrupt_Storage =
     \<lparr>items = [THEME \<mapsto> ''{dark'', SORT_BY \<mapsto> stringify_plain_string ''banana'',
               SORT_ORDER \<mapsto> stringify_plain_string ''asc''],
      blocked = False, full = False\<rparr>"

text \<open>The watchlist filter is active and \<open>"a"\<close> is the only favorite.\<close>

definition last_favorite_world :: world where
  "last_favorite_world =
     sample_world\<lparr>state := sample_State\<lparr>favorites := [''a''], searchQuery := []\<rparr>\<rparr>"

text \<open>A fetch is in flight.\<close>

definition loading_world :: world where
  "loading_world = sample_world\<lparr>state := sample_State\<lparr>isLoading := True\<rparr>\<rparr>"

text \<open>The watchlist filter is off and there is no favorite.\<close>

definition no_favorites_world :: world where
  "no_favorites_world =
     sample_world\<lparr>state := sample_State\<lparr>favorites := [], watchlistOnly := False\<rparr>\<rparr>"

text \<open>The rejection of \<open>fetchCoins\<close> on HTTP status 429.\<close>

definition rate_limited :: js_error where
  "rate_limited = Error (Some ''Rate limit reached. Please wait a moment before refreshing.'')"

text \<open>Storage is blocked for the page.\<close>

definition blocked_Storage :: Storage where
  "blocked_Storage = corrupt_Storage\<lparr>blocked := True\<rparr>"

section \<open>Auxiliary facts\<close>

lemmas sample_defs = sample_State_def sample_host_def Alpha_def Beta_def Gamma_def sample_coin_def
  codeUnitCompare_def
lemmas string_defs = toLowerCase_def toLowerCase_unit_def trim_def isWhiteSpace_def
lemmas sorter_defs = getSorter_def get_property_def Object_prototype_def Array_sort_def
  stable_sort_def

subsection \<open>Strings and filters\<close>

lemma String_includes_sublist: "String_includes s q = sublist q s"
  by (induction s) (simp_all add: sublist_Cons_right)

lemma filters_compose:
  "(if watchlistOnly S
    then filter (\<lambda>coin. id' coin \<in> set (favorites S))
           (filter (\<lambda>coin. if trim (toLowerCase (searchQuery S)) = [] then True
              else String_includes (toLowerCase (name coin)) (trim (toLowerCase (searchQuery S))) \<or>
                   String_includes (toLowerCase (symbol coin)) (trim (toLowerCase (searchQuery S)))) xs)
    else filter (\<lambda>coin. if trim (toLowerCase (searchQuery S)) = [] then True
              else String_includes (toLowerCase (name coin)) (trim (toLowerCase (searchQuery S))) \<or>
                   String_includes (toLowerCase (symbol coin)) (trim (toLowerCase (searchQuery S)))) xs)
   = filter (passes_filters S) xs"
  by (induction xs) (auto simp: passes_filters_def String_includes_sublist Let_def)

lemma deriveVisibleCoins_eq:
  "deriveVisibleCoins h S =
     Array_sort (getSorter h (sortBy S) (sortOrder S)) (filter (passes_filters S) (allCoins S))"
  unfolding deriveVisibleCoins_def Let_def filters_compose ..

subsection \<open>The comparator that is selected\<close>

lemma getSorter_Own:
  assumes "field \<notin> set Object_prototype"
  shows "getSorter h field order =
           Own (\<lambda>a b. (if order = ''asc'' then 1 else - 1) * field_difference h field a b)"
  using assms
  by (simp add: getSorter_def get_property_def field_difference_def Object_prototype_def)

lemma getSorter_Inherited:
  assumes "field \<in> set Object_prototype"
  shows "getSorter h field order = Inherited field"
  using assms by (auto simp: getSorter_def get_property_def Object_prototype_def)

subsection \<open>The stable sort\<close>

lemma mset_insert_by: "mset (insert_by cmp x xs) = add_mset x (mset xs)"
  by (induction xs) simp_all

lemma mset_stable_sort: "mset (stable_sort cmp xs) = mset xs"
  unfolding stable_sort_def by (induction xs) (simp_all add: mset_insert_by)

lemma mset_Array_sort:
  assumes "Array_sort comparefn xs = Inr ys"
  shows "mset ys = mset xs"
  using assms
  by (cases comparefn) (auto simp: Array_sort_def mset_stable_sort split: if_splits)

lemma set_insert_by: "set (insert_by cmp x ys) = insert x (set ys)"
  by (induction ys) auto

lemma filter_insert_by_in:
  assumes "P x" and "\<And>y. P y \<Longrightarrow> cmp x y \<le> 0"
  shows "filter P (insert_by cmp x ys) = x # filter P ys"
  using assms by (induction ys) auto

lemma filter_insert_by_out:
  assumes "\<not> P x"
  shows "filter P (insert_by cmp x ys) = filter P ys"
  using assms by (induction ys) auto

text \<open>Elements that tie pairwise keep their order.\<close>

lemma stable_sort_stable:
  assumes "\<And>x y. P x \<Longrightarrow> P y \<Longrightarrow> cmp x y \<le> 0"
  shows "filter P (stable_sort cmp xs) = filter P xs"
  unfolding stable_sort_def
proof (induction xs)
  case Nil
  show ?case by simp
next
  case (Cons x xs)
  show ?case
  proof (cases "P x")
    case True
    then have "filter P (insert_by cmp x (foldr (insert_by cmp) xs [])) =
                 x # filter P (foldr (insert_by cmp) xs [])"
      using assms by (intro filter_insert_by_in) auto
    with True Cons show ?thesis by simp
  next
    case False
    with Cons show ?thesis by (simp add: filter_insert_by_out)
  qed
qed

lemma sorted_insert_by:
  assumes total: "\<And>a b. cmp a b \<le> 0 \<or> cmp b a \<le> 0"
    and trans: "\<And>a b c. cmp a b \<le> 0 \<Longrightarrow> cmp b c \<le> 0 \<Longrightarrow> cmp a c \<le> 0"
    and "sorted_wrt (\<lambda>a b. cmp a b \<le> 0) ys"
  shows "sorted_wrt (\<lambda>a b. cmp a b \<le> 0) (insert_by cmp x ys)"
  using assms(3)
proof (induction ys)
  case Nil
  show ?case by simp
next
  case (Cons y ys)
  show ?case
  proof (cases "cmp x y \<le> 0")
    case True
    then have "\<forall>z\<in>set ys. cmp x z \<le> 0"
      using Cons.prems trans by auto
    with True Cons.prems show ?thesis by simp
  next
    case False
    then have "cmp y x \<le> 0" using total[of x y] by simp
    with False Cons show ?thesis by (auto simp: set_insert_by)
  qed
qed

lemma sorted_stable_sort:
  assumes total: "\<And>a b. cmp a b \<le> 0 \<or> cmp b a \<le> 0"
    and trans: "\<And>a b c. cmp a b \<le> 0 \<Longrightarrow> cmp b c \<le> 0 \<Longrightarrow> cmp a c \<le> 0"
  shows "sorted_wrt (\<lambda>a b. cmp a b \<le> 0) (stable_sort cmp xs)"
  unfolding stable_sort_def
  by (induction xs) (simp_all add: sorted_insert_by[OF total trans])

subsection \<open>The field comparators under a consistent collation\<close>

lemma consistent_flip:
  assumes "consistent lc"
  shows "(0 \<le> lc a b) = (lc b a \<le> 0)"
proof -
  from assms have "(lc a b < 0) = (0 < lc b a)"
    unfolding consistent_def by blast
  then show ?thesis by linarith
qed

lemma consistent_trans:
  assumes "consistent lc" and "lc a b \<le> 0" and "lc b c \<le> 0"
  shows "lc a c \<le> 0"
  using assms unfolding consistent_def by blast

lemma consistent_refl:
  assumes "consistent lc"
  shows "lc s s = 0"
proof -
  from assms have "(lc s s < 0) = (0 < lc s s)"
    unfolding consistent_def by blast
  then show ?thesis by linarith
qed

lemma consistent_codeUnitCompare: "consistent codeUnitCompare"
  unfolding consistent_def codeUnitCompare_def by (auto split: if_splits)

lemma field_difference_total:
  assumes "consistent (localeCompare h)"
  shows "field_difference h field a b \<le> 0 \<or> field_difference h field b a \<le> 0"
proof (cases "field = ''name''")
  case True
  then show ?thesis
    using consistent_flip[OF assms, of "name a" "name b"]
    by (simp add: field_difference_def) linarith
next
  case False
  then show ?thesis
    by (simp add: field_difference_def) linarith
qed

lemma field_difference_trans:
  assumes "consistent (localeCompare h)"
    and "field_difference h field a b \<le> 0" "field_difference h field b c \<le> 0"
  shows "field_difference h field a c \<le> 0"
proof (cases "field = ''name''")
  case True
  with assms(2,3) have "localeCompare h (name a) (name b) \<le> 0" "localeCompare h (name b) (name c) \<le> 0"
    by (simp_all add: field_difference_def)
  then have "localeCompare h (name a) (name c) \<le> 0"
    by (rule consistent_trans[OF assms(1)])
  with True show ?thesis by (simp add: field_difference_def)
next
  case False
  with assms(2,3) show ?thesis
    by (simp add: field_difference_def split: if_splits)
qed

lemma field_difference_flip:
  assumes "consistent (localeCompare h)"
  shows "(0 \<le> field_difference h field a b) = (field_difference h field b a \<le> 0)"
proof (cases "field = ''name''")
  case True
  then show ?thesis
    using consistent_flip[OF assms, of "name a" "name b"] by (simp add: field_difference_def)
next
  case False
  then show ?thesis
    by (simp add: field_difference_def)
qed

lemma ascending_sorted:
  assumes "consistent (localeCompare h)"
  shows "sorted_wrt (\<lambda>a b. field_difference h field a b \<le> 0)
           (stable_sort (field_difference h field) xs)"
proof (rule sorted_stable_sort)
  show "field_difference h field a b \<le> 0 \<or> field_difference h field b a \<le> 0" for a b
    by (rule field_difference_total[OF assms])
  show "field_difference h field a c \<le> 0"
    if "field_difference h field a b \<le> 0" "field_difference h field b c \<le> 0" for a b c
    using that by (rule field_difference_trans[OF assms])
qed

lemma descending_sorted:
  assumes "consistent (localeCompare h)"
  shows "sorted_wrt (\<lambda>a b. 0 \<le> field_difference h field a b)
           (stable_sort (\<lambda>a b. - field_difference h field a b) xs)"
proof -
  have total: "- field_difference h field a b \<le> 0 \<or> - field_difference h field b a \<le> 0" for a b
    using field_difference_total[OF assms, of field a b]
      field_difference_flip[OF assms, of field a b] field_difference_flip[OF assms, of field b a]
    by auto
  have trans: "- field_difference h field a c \<le> 0"
    if "- field_difference h field a b \<le> 0" "- field_difference h field b c \<le> 0" for a b c
  proof -
    from that have "field_difference h field c b \<le> 0" "field_difference h field b a \<le> 0"
      using field_difference_flip[OF assms] by simp_all
    then have "field_difference h field c a \<le> 0"
      by (rule field_difference_trans[OF assms])
    then show ?thesis using field_difference_flip[OF assms, of field a c] by simp
  qed
  from sorted_stable_sort[of "\<lambda>a b. - field_difference h field a b", OF total trans]
  show ?thesis by simp
qed

lemma same_key_ties:
  assumes "\<forall>s. localeCompare h s s = 0" "same_sort_key field c x" "same_sort_key field c y"
  shows "d * field_difference h field x y \<le> 0"
  using assms by (auto simp: same_sort_key_def field_difference_def split: if_splits)

lemma Array_sort_stable:
  assumes "\<forall>s. localeCompare h s s = 0"
    and "Array_sort (getSorter h field order) xs = Inr ys"
  shows "filter (same_sort_key field c) ys = filter (same_sort_key field c) xs"
proof (cases "field \<in> set Object_prototype")
  case True
  then have inherited: "getSorter h field order = Inherited field"
    by (rule getSorter_Inherited)
  with assms(2) have "ys = xs"
    by (auto simp: Array_sort_def split: if_splits)
  then show ?thesis by simp
next
  case False
  from assms(2) have "ys = stable_sort
      (\<lambda>a b. (if order = ''asc'' then 1 else - 1) * field_difference h field a b) xs"
    by (simp add: getSorter_Own[OF False] Array_sort_def)
  then show ?thesis
    using same_key_ties[OF assms(1)] by (simp add: stable_sort_stable)
qed

section \<open>View Derivation\<close>

text \<open>
  Off the names inherited from \<open>Object.prototype\<close>, so for each of the five sort fields and
  for any other unknown field, \<open>deriveVisibleCoins\<close> returns a list, and the list holds
  exactly the records of \<open>allCoins\<close> that pass the search filter and, when \<open>watchlistOnly\<close>
  is set, the watchlist filter: as a multiset it is \<open>allCoins\<close> filtered, and where the
  records of \<open>allCoins\<close> are distinct each qualifying record appears exactly once and no
  other record appears.
\<close>

lemma deriveVisibleCoins_keeps_filtered:
  assumes "sortBy S \<notin> set Object_prototype"
  shows "\<exists>visible. deriveVisibleCoins h S = Inr visible \<and>
           mset visible = mset (filter (passes_filters S) (allCoins S)) \<and>
           (distinct (allCoins S) \<longrightarrow>
              distinct visible \<and> set visible = {c \<in> set (allCoins S). passes_filters S c})"
proof -
  from assms obtain visible where returned: "deriveVisibleCoins h S = Inr visible"
    by (simp add: deriveVisibleCoins_eq getSorter_Own Array_sort_def)
  then have same: "mset visible = mset (filter (passes_filters S) (allCoins S))"
    unfolding deriveVisibleCoins_eq by (rule mset_Array_sort)
  have "distinct visible \<and> set visible = {c \<in> set (allCoins S). passes_filters S c}"
    if "distinct (allCoins S)"
  proof -
    from that have "distinct (filter (passes_filters S) (allCoins S))" by simp
    with same have "distinct visible" by (metis distinct_count_atmost_1 set_mset_mset)
    moreover from same have "set visible = set (filter (passes_filters S) (allCoins S))"
      by (rule mset_eq_setD)
    ultimately show ?thesis by simp
  qed
  with returned same show ?thesis by blast
qed

text \<open>
  Claim C1. The claim is that for every state the derivation returns exactly the records
  that pass the filters. \<open>State.sortBy\<close> holds whatever the store or the page supplied, and
  with \<open>"valueOf"\<close> in it the property read of \<open>getSorter\<close> finds \<open>Object.prototype.valueOf\<close>
  before the fallback is reached: two records of the state below pass the filters, the sort
  raises at their comparison, and no list is returned. With \<open>market_cap\<close> in \<open>sortBy\<close> the
  same state gives the two records.
\<close>

theorem deriveVisibleCoins_valueOf_raises:
  "filter (passes_filters (sample_State\<lparr>sortBy := ''valueOf''\<rparr>))
     (allCoins (sample_State\<lparr>sortBy := ''valueOf''\<rparr>)) = [Beta, Alpha] \<and>
   deriveVisibleCoins sample_host (sample_State\<lparr>sortBy := ''valueOf''\<rparr>) = Inl TypeError \<and>
   sortBy sample_State = ''market_cap'' \<and>
   deriveVisibleCoins sample_host sample_State = Inr [Alpha, Beta]"
proof -
  have kept: "filter (passes_filters (sample_State\<lparr>sortBy := ''valueOf''\<rparr>))
     (allCoins (sample_State\<lparr>sortBy := ''valueOf''\<rparr>)) = [Beta, Alpha]"
    by (simp add: passes_filters_def Let_def sample_defs string_defs sublist_code)
  have raised: "deriveVisibleCoins sample_host (sample_State\<lparr>sortBy := ''valueOf''\<rparr>) = Inl TypeError"
    by (simp add: deriveVisibleCoins_def Let_def sample_defs string_defs sorter_defs)
  have field: "sortBy sample_State = ''market_cap''"
    by (simp add: sample_State_def)
  have returned: "deriveVisibleCoins sample_host sample_State = Inr [Alpha, Beta]"
    by (simp add: deriveVisibleCoins_def Let_def sample_defs string_defs sorter_defs)
  from kept raised field returned show ?thesis by blast
qed

text \<open>
  Claim C3. The sort step is stable, whatever the order: whenever \<open>deriveVisibleCoins\<close>
  returns a list, the records of that list that have the sort-key value of any given record
  \<open>c\<close> under the selected field stand in the order in which they stand in \<open>allCoins\<close> after
  filtering; and it does return a list for every field that is not inherited from
  \<open>Object.prototype\<close>. Of the collation only this is used: a string compares as equal to
  itself, as it does under every consistent collation.
\<close>

theorem deriveVisibleCoins_sort_stable:
  assumes "\<forall>s. localeCompare h s s = 0"
  shows "(sortBy S \<notin> set Object_prototype \<longrightarrow> (\<exists>visible. deriveVisibleCoins h S = Inr visible)) \<and>
         (\<forall>visible c. deriveVisibleCoins h S = Inr visible \<longrightarrow>
            filter (same_sort_key (sortBy S) c) visible =
            filter (same_sort_key (sortBy S) c) (filter (passes_filters S) (allCoins S)))"
proof (intro conjI impI allI)
  assume "sortBy S \<notin> set Object_prototype"
  then show "\<exists>visible. deriveVisibleCoins h S = Inr visible"
    by (simp add: deriveVisibleCoins_eq getSorter_Own Array_sort_def)
next
  fix visible c
  assume "deriveVisibleCoins h S = Inr visible"
  then show "filter (same_sort_key (sortBy S) c) visible =
            filter (same_sort_key (sortBy S) c) (filter (passes_filters S) (allCoins S))"
    unfolding deriveVisibleCoins_eq by (rule Array_sort_stable[OF assms])
qed

text \<open>The theorem at a state where two records tie on market capitalisation: descending
  and ascending, \<open>Alpha\<close> stays in front of \<open>Gamma\<close> as in \<open>allCoins\<close>.\<close>

theorem deriveVisibleCoins_sort_stable_witness:
  "(\<forall>s. localeCompare sample_host s s = 0) \<and>
   allCoins tie_State = [Beta, Alpha, Gamma] \<and>
   deriveVisibleCoins sample_host tie_State = Inr [Alpha, Gamma, Beta] \<and>
   deriveVisibleCoins sample_host (tie_State\<lparr>sortOrder := ''asc''\<rparr>) = Inr [Beta, Alpha, Gamma] \<and>
   filter (same_sort_key (sortBy tie_State) Alpha) [Alpha, Gamma, Beta] =
     filter (same_sort_key (sortBy tie_State) Alpha)
       (filter (passes_filters tie_State) (allCoins tie_State))"
proof -
  have refl: "\<forall>s. localeCompare sample_host s s = 0"
    by (simp add: sample_host_def codeUnitCompare_def)
  have coins: "allCoins tie_State = [Beta, Alpha, Gamma]"
    by (simp add: tie_State_def sample_State_def)
  have desc: "deriveVisibleCoins sample_host tie_State = Inr [Alpha, Gamma, Beta]"
    by (simp add: tie_State_def deriveVisibleCoins_def Let_def sample_defs string_defs sorter_defs)
  have asc: "deriveVisibleCoins sample_host (tie_State\<lparr>sortOrder := ''asc''\<rparr>) = Inr [Beta, Alpha, Gamma]"
    by (simp add: tie_State_def deriveVisibleCoins_def Let_def sample_defs string_defs sorter_defs)
  from deriveVisibleCoins_sort_stable[OF refl, of tie_State] desc
  have "filter (same_sort_key (sortBy tie_State) Alpha) [Alpha, Gamma, Beta] =
     filter (same_sort_key (sortBy tie_State) Alpha)
       (filter (passes_filters tie_State) (allCoins tie_State))"
    by blast
  with refl coins desc asc show ?thesis by blast
qed

text \<open>
  Claim C7. The claim is that every field outside the five sort fields selects the
  market-capitalisation comparator. The field \<open>"toString"\<close> is outside the five, and the
  property read finds \<open>Object.prototype.toString\<close> before the fallback is reached: the value
  selected is not the market-capitalisation comparator, and sorting with it leaves \<open>Beta\<close>
  (50) in front of \<open>Alpha\<close> (100) where the comparator of an unknown field such as
  \<open>"banana"\<close> puts \<open>Alpha\<close> first.
\<close>

theorem getSorter_toString_not_market_cap:
  "getSorter h ''toString'' ''desc'' = Inherited ''toString'' \<and>
   getSorter h ''toString'' ''desc'' \<noteq> getSorter h ''market_cap'' ''desc'' \<and>
   getSorter h ''banana'' ''desc'' = getSorter h ''market_cap'' ''desc'' \<and>
   Array_sort (getSorter h ''toString'' ''desc'') [Beta, Alpha] = Inr [Beta, Alpha] \<and>
   Array_sort (getSorter h ''market_cap'' ''desc'') [Beta, Alpha] = Inr [Alpha, Beta]"
  by (simp add: sorter_defs Alpha_def Beta_def sample_coin_def)

text \<open>For a field that is neither one of the five nor a name of \<open>Object.prototype\<close> the
  fallback is taken.\<close>

lemma getSorter_unknown_field:
  assumes "field \<notin> set [''market_cap'', ''price'', ''change'', ''name'', ''volume'']"
    and "field \<notin> set Object_prototype"
  shows "getSorter h field order = getSorter h ''market_cap'' order"
  using assms by (simp add: getSorter_def get_property_def)

text \<open>
  Claim C10. Every \<open>sortOrder\<close> other than \<open>"asc"\<close> selects what \<open>"desc"\<close> selects: the
  direction is \<open>-1\<close>. Where the field selects a comparator of the module (it is not a name
  inherited from \<open>Object.prototype\<close>), that comparator is the negated field comparator and,
  the collation being consistent, the sort returns the records in descending order of the
  field; for \<open>"asc"\<close> it is the field comparator itself and the order is ascending.
\<close>

theorem getSorter_direction:
  assumes "order \<noteq> ''asc''"
  shows "getSorter h field order = getSorter h field ''desc'' \<and>
         (field \<notin> set Object_prototype \<longrightarrow>
            getSorter h field order = Own (\<lambda>a b. - 1 * field_difference h field a b) \<and>
            getSorter h field ''asc'' = Own (\<lambda>a b. 1 * field_difference h field a b) \<and>
            (consistent (localeCompare h) \<longrightarrow>
               (\<exists>ys. Array_sort (getSorter h field order) xs = Inr ys \<and>
                     sorted_wrt (\<lambda>a b. 0 \<le> field_difference h field a b) ys) \<and>
               (\<exists>ys. Array_sort (getSorter h field ''asc'') xs = Inr ys \<and>
                     sorted_wrt (\<lambda>a b. field_difference h field a b \<le> 0) ys)))"
proof -
  have same: "getSorter h field order = getSorter h field ''desc''"
    using assms by (simp add: getSorter_def)
  have selected: "getSorter h field order = Own (\<lambda>a b. - 1 * field_difference h field a b) \<and>
      getSorter h field ''asc'' = Own (\<lambda>a b. 1 * field_difference h field a b)"
    if "field \<notin> set Object_prototype"
    using assms by (simp add: getSorter_Own[OF that])
  have sorts: "(\<exists>ys. Array_sort (getSorter h field order) xs = Inr ys \<and>
                     sorted_wrt (\<lambda>a b. 0 \<le> field_difference h field a b) ys) \<and>
               (\<exists>ys. Array_sort (getSorter h field ''asc'') xs = Inr ys \<and>
                     sorted_wrt (\<lambda>a b. field_difference h field a b \<le> 0) ys)"
    if "field \<notin> set Object_prototype" and "consistent (localeCompare h)"
    using assms ascending_sorted[OF that(2)] descending_sorted[OF that(2)]
    by (simp add: getSorter_Own[OF that(1)] Array_sort_def)
  from same selected sorts show ?thesis by blast
qed

text \<open>The theorem at the corrupt order \<open>"DESC "\<close>, for the field \<open>market_cap\<close>.\<close>

theorem getSorter_direction_witness:
  "''DESC '' \<noteq> ''asc'' \<and> ''market_cap'' \<notin> set Object_prototype \<and>
   consistent (localeCompare sample_host) \<and>
   getSorter sample_host ''market_cap'' ''DESC '' =
     Own (\<lambda>a b. - 1 * field_difference sample_host ''market_cap'' a b) \<and>
   Array_sort (getSorter sample_host ''market_cap'' ''DESC '') [Beta, Alpha, Gamma] =
     Inr [Alpha, Gamma, Beta] \<and>
   (\<exists>ys. Array_sort (getSorter sample_host ''market_cap'' ''DESC '') [Beta, Alpha, Gamma] = Inr ys \<and>
      sorted_wrt (\<lambda>a b. 0 \<le> field_difference sample_host ''market_cap'' a b) ys) \<and>
   Array_sort (getSorter sample_host ''market_cap'' ''asc'') [Beta, Alpha, Gamma] =
     Inr [Beta, Alpha, Gamma]"
proof -
  have order: "''DESC '' \<noteq> ''asc''" by simp
  have field: "''market_cap'' \<notin> set Object_prototype" by (simp add: Object_prototype_def)
  have collation: "consistent (localeCompare sample_host)"
    by (simp add: sample_host_def consistent_codeUnitCompare)
  have desc: "Array_sort (getSorter sample_host ''market_cap'' ''DESC '') [Beta, Alpha, Gamma] =
     Inr [Alpha, Gamma, Beta]"
    by (simp add: sorter_defs Alpha_def Beta_def Gamma_def sample_coin_def)
  have asc: "Array_sort (getSorter sample_host ''market_cap'' ''asc'') [Beta, Alpha, Gamma] =
     Inr [Beta, Alpha, Gamma]"
    by (simp add: sorter_defs Alpha_def Beta_def Gamma_def sample_coin_def)
  from getSorter_direction[OF order, of sample_host "''market_cap''" "[Beta, Alpha, Gamma]"]
    order field collation desc asc
  show ?thesis by blast
qed

section \<open>Facts about the handlers\<close>

lemmas storage_defs = getItem_def corrupt_Storage_def THEME_def SORT_BY_def SORT_ORDER_def
  FAVORITES_def sample_host_def parse_plain_string_def stringify_plain_string_def plain_unit_def
lemmas world_defs = sample_world_def empty_Storage_def last_favorite_world_def loading_world_def
  no_favorites_world_def

subsection \<open>What each handler does to \<open>State\<close>\<close>

lemma state_emit [simp]: "state (emit es w) = state w"
  by (simp add: emit_def)

lemma state_saveToStorage [simp]: "state (saveToStorage f k v w) = state w"
  by (simp add: saveToStorage_def split: sum.splits)

lemma state_renderView [simp]: "state (snd (renderView h w)) = state w"
  by (simp add: renderView_def Let_def split: sum.splits)

lemma state_leave_handler [simp]: "state (leave_handler r) = state (snd r)"
  by (cases r) (simp add: leave_handler_def split: option.splits)

lemma state_setRefreshSpinner [simp]: "state (setRefreshSpinner b w) = state w"
  by (simp add: setRefreshSpinner_def)

lemma state_loadData_catch [simp]: "state (loadData_catch h e w) = state w"
  by (simp add: loadData_catch_def)

lemma state_on_search_input: "state (on_search_input h t w) = (state w)\<lparr>searchQuery := t\<rparr>"
  by (simp add: on_search_input_def Let_def)

lemma state_on_clear_search: "state (on_clear_search h w) = (state w)\<lparr>searchQuery := []\<rparr>"
  by (simp add: on_clear_search_def Let_def)

lemma state_on_sort_change: "state (on_sort_change h f w) = (state w)\<lparr>sortBy := f\<rparr>"
  by (simp add: on_sort_change_def Let_def)

lemma state_on_sort_order_click:
  "state (on_sort_order_click h w) =
     (state w)\<lparr>sortOrder := (if sortOrder (state w) = ''desc'' then ''asc'' else ''desc'')\<rparr>"
  by (simp add: on_sort_order_click_def Let_def)

lemma state_on_watchlist_click:
  "state (on_watchlist_click h w) = (state w)\<lparr>watchlistOnly := \<not> watchlistOnly (state w)\<rparr>"
  by (simp add: on_watchlist_click_def Let_def)

lemma state_toggleFavorite:
  "state (toggleFavorite h x w) =
     (state w)\<lparr>favorites := (if x \<in> set (favorites (state w))
                               then filter (\<lambda>i. i \<noteq> x) (favorites (state w))
                               else favorites (state w) @ [x])\<rparr>"
proof -
  have rest: "state (case r of (Some err, w3) \<Rightarrow> emit [uncaught err] w3
        | (None, w3) \<Rightarrow> if P w3 then emit [showWatchlistEmpty] w3 else w3) = state (snd r)" for r P
    by (cases r) (simp split: option.splits)
  show ?thesis
    unfolding toggleFavorite_def Let_def rest by simp
qed

lemma state_toggleTheme:
  "state (toggleTheme h w) =
     (state w)\<lparr>theme := (if theme (state w) = ''dark'' then ''light'' else ''dark'')\<rparr>"
  by (simp add: toggleTheme_def Let_def)

lemma state_loadData_call: "state (loadData_call w) = (state w)\<lparr>isLoading := True\<rparr>"
  by (simp add: loadData_call_def)

lemma state_loadData_resume:
  "state (loadData_resume h outcome w) =
     (case outcome of
        Resolved coins \<Rightarrow> (state w)\<lparr>allCoins := coins, isLoading := False\<rparr>
      | Rejected err \<Rightarrow> (state w)\<lparr>isLoading := False\<rparr>)"
proof (cases outcome)
  case (Resolved coins)
  have rest: "state (case r of (None, w2) \<Rightarrow> emit es w2 | (Some err, w2) \<Rightarrow> loadData_catch h err w2)
             = state (snd r)" for r es
    by (cases r) (simp split: option.splits)
  show ?thesis
    unfolding loadData_resume_def Let_def Resolved by (simp add: rest)
next
  case (Rejected err)
  then show ?thesis
    by (simp add: loadData_resume_def Let_def)
qed

lemma state_loadData:
  "state (loadData h outcome w) =
     (if isLoading (state w) then state w
      else case outcome of
        Resolved coins \<Rightarrow> (state w)\<lparr>allCoins := coins, isLoading := False\<rparr>
      | Rejected err \<Rightarrow> (state w)\<lparr>isLoading := False\<rparr>)"
  by (simp add: loadData_def state_loadData_resume state_loadData_call split: settled.splits)

lemmas state_after = state_on_search_input state_on_clear_search state_on_sort_change
  state_on_sort_order_click state_on_watchlist_click state_toggleFavorite state_toggleTheme
  state_loadData on_retry_click_def on_grid_click_def

lemma exec_keeps_valid:
  assumes "valid_preferences (state w)" "well_formed c"
  shows "valid_preferences (state (exec h c w))"
  using assms
  by (cases c) (auto simp: state_after valid_preferences_def valid_sortOrder_def valid_theme_def
      split: settled.splits)

text \<open>While a fetch is in flight no command touches \<open>allCoins\<close> or \<open>isLoading\<close>.\<close>

lemma exec_while_loading:
  assumes "isLoading (state w)"
  shows "isLoading (state (exec h c w)) \<and> allCoins (state (exec h c w)) = allCoins (state w)"
  using assms by (cases c) (simp_all add: state_after)

lemma run_while_loading:
  assumes "isLoading (state w)"
  shows "isLoading (state (run h cs w)) \<and> allCoins (state (run h cs w)) = allCoins (state w)"
  using assms unfolding run_def
proof (induction cs arbitrary: w)
  case Nil
  then show ?case by simp
next
  case (Cons c cs)
  from exec_while_loading[OF Cons.prems, of h c]
  have "isLoading (state (exec h c w))" and same: "allCoins (state (exec h c w)) = allCoins (state w)"
    by simp_all
  from Cons.IH[OF this(1)] same show ?case by simp
qed

subsection \<open>What is recorded\<close>

lemma calls_loadData_resume_Rejected:
  "calls (loadData_resume h (Rejected err) w) =
     calls w @ [showError (case message h err of Some m \<Rightarrow> m | None \<Rightarrow> ''An unknown error occurred.''),
                showToast Failed_to_load ''danger'', console_error err,
                classList_toggle ''refreshBtn'' ''spinning'' False]"
  by (simp add: loadData_resume_def Let_def loadData_catch_def emit_def setRefreshSpinner_def)

lemma calls_loadData_call:
  "calls (loadData_call w) =
     calls w @ [classList_toggle ''refreshBtn'' ''spinning'' True, renderSkeletons 20, Call_fetchCoins]"
  by (simp add: loadData_call_def emit_def setRefreshSpinner_def)

lemma calls_saveToStorage:
  "\<exists>warn. calls (saveToStorage f k v w) = calls w @ warn \<and> Call_deriveVisibleCoins \<notin> set warn"
  by (auto simp: saveToStorage_def emit_def split: sum.splits)

lemma getSorter_Inherited_name:
  assumes "getSorter h field order = Inherited p"
  shows "p = field"
proof (cases "field \<in> set Object_prototype")
  case True
  with assms show ?thesis by (simp add: getSorter_Inherited)
next
  case False
  with assms show ?thesis by (simp add: getSorter_Own)
qed

text \<open>With the watchlist filter on and no favorite, nothing passes and there is nothing
  to compare.\<close>

lemma deriveVisibleCoins_empty_watchlist:
  assumes "watchlistOnly S" "favorites S = []" "sortBy S \<noteq> ''__proto__''"
  shows "deriveVisibleCoins h S = Inr []"
proof -
  have "filter (passes_filters S) (allCoins S) = []"
    using assms(1,2) by (simp add: passes_filters_def Let_def)
  moreover have "Array_sort (getSorter h (sortBy S) (sortOrder S)) [] = Inr []"
  proof (cases "getSorter h (sortBy S) (sortOrder S)")
    case (Own cmp)
    then show ?thesis by (simp add: Array_sort_def stable_sort_def)
  next
    case (Inherited p)
    with getSorter_Inherited_name[OF Inherited] assms(3) show ?thesis
      by (simp add: Array_sort_def)
  next
    case Undefined
    then show ?thesis by (simp add: Array_sort_def)
  qed
  ultimately show ?thesis by (simp add: deriveVisibleCoins_eq)
qed

lemma state_startup: "state (startup h st) = (State_init h st)\<lparr>isLoading := True\<rparr>"
  by (simp add: startup_def state_loadData_call restoreUIState_def Let_def)

lemma loadFromStorage_stored:
  "loadFromStorage (JSON_parse_string h) st key d =
     (case stored_string h st key of Some v \<Rightarrow> v | None \<Rightarrow> d)"
  by (simp add: loadFromStorage_def loadFromStorage_try_def stored_string_def
      split: sum.splits option.splits)

section \<open>The Preference Store and the preferences in \<open>State\<close>\<close>

text \<open>
  Claim C9. For every key and default value, \<open>loadFromStorage\<close> returns the parsed value
  when the key holds a text that parses; it returns the default value when the key is
  missing, when the text does not parse, and when reading storage raises. Whatever is
  raised inside its \<open>try\<close> block ends as the default value: the function itself returns a
  value in every case.
\<close>

theorem loadFromStorage_value_or_default:
  "(getItem st key = Inr (Some text) \<and> parse text = Inr v \<longrightarrow> loadFromStorage parse st key d = v) \<and>
   (getItem st key = Inr None \<longrightarrow> loadFromStorage parse st key d = d) \<and>
   (getItem st key = Inr (Some text) \<and> parse text = Inl e \<longrightarrow> loadFromStorage parse st key d = d) \<and>
   (getItem st key = Inl e \<longrightarrow> loadFromStorage parse st key d = d) \<and>
   (loadFromStorage_try parse st key d = Inl e \<longrightarrow> loadFromStorage parse st key d = d)"
  by (simp add: loadFromStorage_def loadFromStorage_try_def)

text \<open>The theorem at a store whose theme entry is corrupt, whose sort order parses and
  which has no entry for the favorites.\<close>

theorem loadFromStorage_value_or_default_witness:
  "getItem corrupt_Storage THEME = Inr (Some ''{dark'') \<and>
   parse_plain_string ''{dark'' = Inl SyntaxError \<and>
   loadFromStorage parse_plain_string corrupt_Storage THEME ''dark'' = ''dark'' \<and>
   loadFromStorage parse_plain_string corrupt_Storage SORT_ORDER ''desc'' = ''asc'' \<and>
   loadFromStorage parse_plain_strings corrupt_Storage FAVORITES [] = [] \<and>
   getItem blocked_Storage SORT_BY = Inl SecurityError \<and>
   loadFromStorage parse_plain_string blocked_Storage SORT_BY ''market_cap'' = ''market_cap''"
proof -
  have refused: "getItem blocked_Storage SORT_BY = Inl SecurityError"
    by (simp add: getItem_def blocked_Storage_def)
  from loadFromStorage_value_or_default
         [of blocked_Storage SORT_BY _ parse_plain_string _ "''market_cap''" SecurityError]
    refused
  have blocked: "loadFromStorage parse_plain_string blocked_Storage SORT_BY ''market_cap'' =
      ''market_cap''"
    by blast
  have stored: "getItem corrupt_Storage THEME = Inr (Some ''{dark'')"
    by (simp add: storage_defs)
  have fails: "parse_plain_string ''{dark'' = Inl SyntaxError"
    by (simp add: parse_plain_string_def)
  have order: "getItem corrupt_Storage SORT_ORDER = Inr (Some (stringify_plain_string ''asc''))"
    by (simp add: storage_defs)
  have parses: "parse_plain_string (stringify_plain_string ''asc'') = Inr ''asc''"
    by (simp add: parse_plain_string_def stringify_plain_string_def plain_unit_def)
  have missing: "getItem corrupt_Storage FAVORITES = Inr None"
    by (simp add: storage_defs)
  from loadFromStorage_value_or_default
         [of corrupt_Storage THEME "''{dark''" parse_plain_string _ "''dark''" SyntaxError]
    stored fails
  have "loadFromStorage parse_plain_string corrupt_Storage THEME ''dark'' = ''dark''"
    by blast
  moreover
  from loadFromStorage_value_or_default
         [of corrupt_Storage SORT_ORDER "stringify_plain_string ''asc''" parse_plain_string
             "''asc''" "''desc''"] order parses
  have "loadFromStorage parse_plain_string corrupt_Storage SORT_ORDER ''desc'' = ''asc''"
    by blast
  moreover
  from loadFromStorage_value_or_default[of corrupt_Storage FAVORITES _ parse_plain_strings _ "[]"]
    missing
  have "loadFromStorage parse_plain_strings corrupt_Storage FAVORITES [] = []"
    by blast
  ultimately show ?thesis using stored fails refused blocked by blast
qed

text \<open>
  Claim C2, as amended. When the entry point has run, each of \<open>sortBy\<close>, \<open>sortOrder\<close> and
  \<open>theme\<close> is the value its storage entry parses to, taken as it is and not compared with
  the enumeration, and is its documented default (\<open>market_cap\<close>, \<open>desc\<close>, \<open>dark\<close>) when
  storage cannot be read, the key is missing or the text does not parse. Every command
  keeps valid values valid, provided a change of the sort select supplies a sort field; and
  the sort-order and theme toggles store a valid value whatever the value before.
\<close>

theorem preferences_hydrated_unchecked_and_kept:
  "sortBy (state (startup h st)) =
     (case stored_string h st SORT_BY of Some v \<Rightarrow> v | None \<Rightarrow> ''market_cap'') \<and>
   sortOrder (state (startup h st)) =
     (case stored_string h st SORT_ORDER of Some v \<Rightarrow> v | None \<Rightarrow> ''desc'') \<and>
   theme (state (startup h st)) =
     (case stored_string h st THEME of Some v \<Rightarrow> v | None \<Rightarrow> ''dark'') \<and>
   (valid_preferences (state w) \<and> well_formed c \<longrightarrow> valid_preferences (state (exec h c w))) \<and>
   valid_sortOrder (sortOrder (state (exec h SortOrderClick w))) \<and>
   valid_theme (theme (state (exec h ThemeClick w)))"
  by (simp add: state_startup State_init_def loadFromStorage_stored exec_keeps_valid
      state_on_sort_order_click state_toggleTheme valid_sortOrder_def valid_theme_def)

text \<open>The theorem at the corrupt store and at a change of the sort select to \<open>price\<close>.\<close>

theorem preferences_hydrated_unchecked_and_kept_witness:
  "valid_preferences (state sample_world) \<and> well_formed (SortChange ''price'') \<and>
   valid_preferences (state (exec sample_host (SortChange ''price'') sample_world)) \<and>
   stored_string sample_host corrupt_Storage THEME = None \<and>
   theme (state (startup sample_host corrupt_Storage)) = ''dark'' \<and>
   stored_string sample_host corrupt_Storage SORT_ORDER = Some ''asc'' \<and>
   sortOrder (state (startup sample_host corrupt_Storage)) = ''asc''"
proof -
  have valid: "valid_preferences (state sample_world)"
    by (simp add: sample_world_def sample_State_def valid_preferences_def valid_sortBy_def
        valid_sortOrder_def valid_theme_def)
  have wf: "well_formed (SortChange ''price'')"
    by (simp add: valid_sortBy_def)
  have theme: "stored_string sample_host corrupt_Storage THEME = None"
    by (simp add: stored_string_def storage_defs)
  have order: "stored_string sample_host corrupt_Storage SORT_ORDER = Some ''asc''"
    by (simp add: stored_string_def storage_defs)
  from preferences_hydrated_unchecked_and_kept
         [of sample_host corrupt_Storage sample_world "SortChange ''price''"]
    valid wf theme order
  show ?thesis by simp
qed

text \<open>The store holds the JSON string \<open>"banana"\<close> under \<open>nexus_sort_by\<close>: the text parses,
  so there is no fallback, and \<open>sortBy\<close> is not one of the five sort fields when the entry
  point has run.\<close>

theorem startup_corrupt_counterexample:
  "getItem corrupt_Storage SORT_BY = Inr (Some (CHR 0x22 # ''banana'' @ [CHR 0x22])) \<and>
   sortBy (state (startup sample_host corrupt_Storage)) = ''banana'' \<and>
   \<not> valid_sortBy (sortBy (state (startup sample_host corrupt_Storage)))"
  by (simp add: startup_def loadData_call_def setRefreshSpinner_def emit_def restoreUIState_def
      Let_def State_init_def loadFromStorage_def loadFromStorage_try_def storage_defs
      valid_sortBy_def)

section \<open>Commands\<close>

text \<open>
  Claim C6. In every state with \<open>isLoading\<close> set, \<open>loadData\<close> changes nothing: the state,
  the store and the record of calls, in which a call of \<open>fetchCoins\<close> would appear, are as
  before.
\<close>

theorem loadData_noop_while_loading:
  assumes "isLoading (state w)"
  shows "loadData h outcome w = w"
  using assms by (simp add: loadData_def)

theorem loadData_noop_while_loading_witness:
  "isLoading (state loading_world) \<and>
   loadData sample_host (Resolved [Alpha]) loading_world = loading_world"
proof -
  have busy: "isLoading (state loading_world)"
    by (simp add: loading_world_def)
  from loadData_noop_while_loading[OF busy] busy show ?thesis by blast
qed

text \<open>
  Claim C5. Let \<open>loadData\<close> be called while no fetch is in flight, and let any commands run
  between the call and the settling of the promise. If the Data Source fails, \<open>allCoins\<close>
  is what it was before the call, and what the resumed \<open>loadData\<close> does is to show the
  message of the failure (or the fixed text when it has none) as the error, to emit the
  failure notification, to log the error and to stop the spinner; and whatever the outcome,
  \<open>isLoading\<close> is cleared at the end. With nothing in between, the call records the
  spinner, the placeholders, the call of \<open>fetchCoins\<close> and then the same four events.
\<close>

theorem loadData_failure_keeps_allCoins:
  assumes "\<not> isLoading (state w)"
  shows "allCoins (state (loadData_resume h (Rejected err) (run h cs (loadData_call w)))) =
           allCoins (state w) \<and>
         calls (loadData_resume h (Rejected err) (run h cs (loadData_call w))) =
           calls (run h cs (loadData_call w)) @
             [showError (case message h err of Some m \<Rightarrow> m
                         | None \<Rightarrow> ''An unknown error occurred.''),
              showToast Failed_to_load ''danger'', console_error err,
              classList_toggle ''refreshBtn'' ''spinning'' False] \<and>
         \<not> isLoading (state (loadData_resume h outcome (run h cs (loadData_call w)))) \<and>
         loadData h outcome w = loadData_resume h outcome (run h [] (loadData_call w)) \<and>
         allCoins (state (loadData h (Rejected err) w)) = allCoins (state w) \<and>
         calls (loadData h (Rejected err) w) =
           calls w @ [classList_toggle ''refreshBtn'' ''spinning'' True, renderSkeletons 20,
                      Call_fetchCoins,
                      showError (case message h err of Some m \<Rightarrow> m
                                 | None \<Rightarrow> ''An unknown error occurred.''),
                      showToast Failed_to_load ''danger'', console_error err,
                      classList_toggle ''refreshBtn'' ''spinning'' False] \<and>
         \<not> isLoading (state (loadData h outcome w))"
proof -
  have loading: "isLoading (state (loadData_call w))"
    by (simp add: state_loadData_call)
  from run_while_loading[OF loading, of h cs]
  have "allCoins (state (run h cs (loadData_call w))) = allCoins (state w)"
    by (simp add: state_loadData_call)
  then have between:
    "allCoins (state (loadData_resume h (Rejected err) (run h cs (loadData_call w)))) =
       allCoins (state w)"
    by (simp add: state_loadData_resume)
  have surfaced:
    "calls (loadData_resume h (Rejected err) (run h cs (loadData_call w))) =
           calls (run h cs (loadData_call w)) @
             [showError (case message h err of Some m \<Rightarrow> m
                         | None \<Rightarrow> ''An unknown error occurred.''),
              showToast Failed_to_load ''danger'', console_error err,
              classList_toggle ''refreshBtn'' ''spinning'' False]"
    by (rule calls_loadData_resume_Rejected)
  have cleared: "\<not> isLoading (state (loadData_resume h outcome v))" for v
    by (simp add: state_loadData_resume split: settled.splits)
  have atomic: "loadData h out w = loadData_resume h out (run h [] (loadData_call w))" for out
    using assms by (simp add: loadData_def run_def)
  have alone: "allCoins (state (loadData h (Rejected err) w)) = allCoins (state w) \<and>
         calls (loadData h (Rejected err) w) =
           calls w @ [classList_toggle ''refreshBtn'' ''spinning'' True, renderSkeletons 20,
                      Call_fetchCoins,
                      showError (case message h err of Some m \<Rightarrow> m
                                 | None \<Rightarrow> ''An unknown error occurred.''),
                      showToast Failed_to_load ''danger'', console_error err,
                      classList_toggle ''refreshBtn'' ''spinning'' False] \<and>
         \<not> isLoading (state (loadData h outcome w))"
    unfolding atomic
    by (simp add: run_def state_loadData_resume state_loadData_call
        calls_loadData_resume_Rejected calls_loadData_call split: settled.splits)
  from between surfaced cleared[of "run h cs (loadData_call w)"] atomic[of outcome] alone
  show ?thesis by blast
qed

text \<open>The theorem at a rate-limited fetch; while the fetch is in flight the sort order is
  toggled, which renders the view, and the refresh button is pressed again, which does
  nothing.\<close>

theorem loadData_failure_keeps_allCoins_witness:
  "\<not> isLoading (state sample_world) \<and>
   allCoins (state (loadData_resume sample_host (Rejected rate_limited)
      (run sample_host [SortOrderClick, Refresh (Resolved [Alpha])] (loadData_call sample_world)))) =
     [Beta, Alpha, Gamma] \<and>
   calls (loadData_resume sample_host (Rejected rate_limited)
      (run sample_host [SortOrderClick, Refresh (Resolved [Alpha])] (loadData_call sample_world))) =
     [classList_toggle ''refreshBtn'' ''spinning'' True, renderSkeletons 20, Call_fetchCoins,
      classList_toggle ''sortOrderBtn'' ''asc'' True,
      set_className ''sortOrderIcon'' ''fa-solid fa-arrow-up-wide-short'',
      set_title ''sortOrderBtn'' ''Ascending'',
      Call_deriveVisibleCoins, renderCoins [Beta, Alpha] [''a'', ''b''], updateStats 3 2 2,
      showError ''Rate limit reached. Please wait a moment before refreshing.'',
      showToast Failed_to_load ''danger'', console_error rate_limited,
      classList_toggle ''refreshBtn'' ''spinning'' False] \<and>
   calls (loadData sample_host (Rejected rate_limited) sample_world) =
     [classList_toggle ''refreshBtn'' ''spinning'' True, renderSkeletons 20, Call_fetchCoins,
      showError ''Rate limit reached. Please wait a moment before refreshing.'',
      showToast Failed_to_load ''danger'', console_error rate_limited,
      classList_toggle ''refreshBtn'' ''spinning'' False] \<and>
   \<not> isLoading (state (loadData sample_host (Resolved [Alpha]) sample_world))"
proof -
  have idle: "\<not> isLoading (state sample_world)"
    by (simp add: sample_world_def sample_State_def)
  have before: "allCoins (state sample_world) = [Beta, Alpha, Gamma]" "calls sample_world = []"
    by (simp_all add: sample_world_def sample_State_def)
  have shown: "message sample_host rate_limited =
      Some ''Rate limit reached. Please wait a moment before refreshing.''"
    by (simp add: message_def rate_limited_def)
  have during: "calls (run sample_host [SortOrderClick, Refresh (Resolved [Alpha])]
        (loadData_call sample_world)) =
     [classList_toggle ''refreshBtn'' ''spinning'' True, renderSkeletons 20, Call_fetchCoins,
      classList_toggle ''sortOrderBtn'' ''asc'' True,
      set_className ''sortOrderIcon'' ''fa-solid fa-arrow-up-wide-short'',
      set_title ''sortOrderBtn'' ''Ascending'',
      Call_deriveVisibleCoins, renderCoins [Beta, Alpha] [''a'', ''b''], updateStats 3 2 2]"
    by (simp add: run_def loadData_def loadData_call_def setRefreshSpinner_def emit_def
        on_sort_order_click_def Let_def saveToStorage_def setItem_def renderView_def
        leave_handler_def deriveVisibleCoins_def world_defs sample_defs string_defs sorter_defs)
  note at_sample = loadData_failure_keeps_allCoins[OF idle, of sample_host rate_limited
      "[SortOrderClick, Refresh (Resolved [Alpha])]" "Resolved [Alpha]"]
  from at_sample[THEN conjunct1] before(1)
  have kept: "allCoins (state (loadData_resume sample_host (Rejected rate_limited)
      (run sample_host [SortOrderClick, Refresh (Resolved [Alpha])] (loadData_call sample_world)))) =
     [Beta, Alpha, Gamma]"
    by simp
  from at_sample[THEN conjunct2, THEN conjunct1] shown during
  have surfaced: "calls (loadData_resume sample_host (Rejected rate_limited)
      (run sample_host [SortOrderClick, Refresh (Resolved [Alpha])] (loadData_call sample_world))) =
     [classList_toggle ''refreshBtn'' ''spinning'' True, renderSkeletons 20, Call_fetchCoins,
      classList_toggle ''sortOrderBtn'' ''asc'' True,
      set_className ''sortOrderIcon'' ''fa-solid fa-arrow-up-wide-short'',
      set_title ''sortOrderBtn'' ''Ascending'',
      Call_deriveVisibleCoins, renderCoins [Beta, Alpha] [''a'', ''b''], updateStats 3 2 2,
      showError ''Rate limit reached. Please wait a moment before refreshing.'',
      showToast Failed_to_load ''danger'', console_error rate_limited,
      classList_toggle ''refreshBtn'' ''spinning'' False]"
    by simp
  from at_sample[THEN conjunct2, THEN conjunct2, THEN conjunct2, THEN conjunct2, THEN conjunct2]
    shown before(2)
  have alone: "calls (loadData sample_host (Rejected rate_limited) sample_world) =
     [classList_toggle ''refreshBtn'' ''spinning'' True, renderSkeletons 20, Call_fetchCoins,
      showError ''Rate limit reached. Please wait a moment before refreshing.'',
      showToast Failed_to_load ''danger'', console_error rate_limited,
      classList_toggle ''refreshBtn'' ''spinning'' False] \<and>
   \<not> isLoading (state (loadData sample_host (Resolved [Alpha]) sample_world))"
    by simp
  from idle kept surfaced alone show ?thesis by blast
qed

text \<open>
  Claim C8. For every state and every coin id \<open>x\<close>, two calls of \<open>toggleFavorite\<close> with \<open>x\<close>
  in succession leave \<open>favorites\<close> with the identifiers, as a set, that it had before the
  first call.
\<close>

theorem toggleFavorite_twice:
  "set (favorites (state (toggleFavorite h x (toggleFavorite h x w)))) = set (favorites (state w))"
  by (auto simp: state_toggleFavorite)

theorem toggleFavorite_twice_witness:
  "favorites (state last_favorite_world) = [''a''] \<and>
   favorites (state (toggleFavorite sample_host ''a'' last_favorite_world)) = [] \<and>
   set (favorites (state (toggleFavorite sample_host ''a''
          (toggleFavorite sample_host ''a'' last_favorite_world)))) = {''a''}"
proof -
  have start: "favorites (state last_favorite_world) = [''a'']"
    by (simp add: world_defs sample_defs)
  have once: "favorites (state (toggleFavorite sample_host ''a'' last_favorite_world)) = []"
    by (simp add: state_toggleFavorite world_defs sample_defs)
  from toggleFavorite_twice[of sample_host "''a''" last_favorite_world] start once
  show ?thesis by simp
qed

text \<open>
  Claim C4, as amended. When the watchlist toggle turns the filter on while \<open>favorites\<close> is
  empty, the empty-watchlist presentation is invoked and \<open>deriveVisibleCoins\<close> is not run.
  When \<open>toggleFavorite\<close> removes the last favorite while the filter is active,
  \<open>deriveVisibleCoins\<close> is run, the empty result is rendered, and the empty-watchlist
  presentation is invoked after that (the sort field \<open>"__proto__"\<close>, with which the
  derivation raises, apart).
\<close>

theorem empty_watchlist_presentation:
  "(\<not> watchlistOnly (state w) \<and> favorites (state w) = [] \<longrightarrow>
      watchlistOnly (state (on_watchlist_click h w)) \<and>
      calls (on_watchlist_click h w) =
        calls w @ [setAttribute ''watchlistToggle'' ''aria-pressed'' ''true'',
                   classList_toggle ''watchlistToggle'' ''active-watchlist'' True,
                   showWatchlistEmpty, updateStats (length (allCoins (state w))) 0 0]) \<and>
   (watchlistOnly (state w) \<and> x \<in> set (favorites (state w)) \<and>
    filter (\<lambda>i. i \<noteq> x) (favorites (state w)) = [] \<and> sortBy (state w) \<noteq> ''__proto__'' \<longrightarrow>
      favorites (state (toggleFavorite h x w)) = [] \<and>
      (\<exists>before. calls (toggleFavorite h x w) =
         calls w @ before @ [Call_deriveVisibleCoins, renderCoins [] [],
                             updateStats (length (allCoins (state w))) 0 0, showWatchlistEmpty] \<and>
         Call_deriveVisibleCoins \<notin> set before))"
proof -
  have turned_on: "watchlistOnly (state (on_watchlist_click h w)) \<and>
      calls (on_watchlist_click h w) =
        calls w @ [setAttribute ''watchlistToggle'' ''aria-pressed'' ''true'',
                   classList_toggle ''watchlistToggle'' ''active-watchlist'' True,
                   showWatchlistEmpty, updateStats (length (allCoins (state w))) 0 0]"
    if "\<not> watchlistOnly (state w) \<and> favorites (state w) = []"
    using that by (simp add: on_watchlist_click_def Let_def emit_def String_of_bool_def)
  have last_removed: "favorites (state (toggleFavorite h x w)) = [] \<and>
      (\<exists>before. calls (toggleFavorite h x w) =
         calls w @ before @ [Call_deriveVisibleCoins, renderCoins [] [],
                             updateStats (length (allCoins (state w))) 0 0, showWatchlistEmpty] \<and>
         Call_deriveVisibleCoins \<notin> set before)"
    if a: "watchlistOnly (state w) \<and> x \<in> set (favorites (state w)) \<and>
      filter (\<lambda>i. i \<noteq> x) (favorites (state w)) = [] \<and> sortBy (state w) \<noteq> ''__proto__''"
  proof -
    define coinName where "coinName = (case find (\<lambda>c. id' c = x) (allCoins (state w)) of
                          Some coin \<Rightarrow> name coin | None \<Rightarrow> x)"
    define w1 where "w1 = emit [showToast (Removed_from_watchlist coinName) ''info'']
                         (w\<lparr>state := (state w)\<lparr>favorites := []\<rparr>\<rparr>)"
    define w2 where "w2 = saveToStorage (JSON_stringify_strings h) FAVORITES (favorites (state w1)) w1"
    have S2: "state w2 = (state w)\<lparr>favorites := []\<rparr>"
      by (simp add: w2_def w1_def)
    have derive: "deriveVisibleCoins h (state w2) = Inr []"
      using a by (intro deriveVisibleCoins_empty_watchlist) (simp_all add: S2)
    have rendered: "renderView h w2 =
        (None, emit [renderCoins [] [], updateStats (length (allCoins (state w))) 0 0]
                 (emit [Call_deriveVisibleCoins] w2))"
      using derive by (simp add: renderView_def Let_def S2)
    have "toggleFavorite h x w =
        (case renderView h w2 of
           (Some err, w3) \<Rightarrow> emit [uncaught err] w3
         | (None, w3) \<Rightarrow>
             if watchlistOnly (state w3) \<and> length (favorites (state w3)) = 0
             then emit [showWatchlistEmpty] w3
             else w3)"
      using a by (simp add: toggleFavorite_def Let_def w2_def w1_def coinName_def)
    then have unfold: "toggleFavorite h x w =
        emit [showWatchlistEmpty]
          (emit [renderCoins [] [], updateStats (length (allCoins (state w))) 0 0]
             (emit [Call_deriveVisibleCoins] w2))"
      using a by (simp add: rendered S2)
    obtain warn where warn: "calls w2 = calls w1 @ warn" "Call_deriveVisibleCoins \<notin> set warn"
      using calls_saveToStorage[of "JSON_stringify_strings h" FAVORITES "favorites (state w1)" w1]
      unfolding w2_def by blast
    have "calls (toggleFavorite h x w) =
        calls w @ (showToast (Removed_from_watchlist coinName) ''info'' # warn) @
          [Call_deriveVisibleCoins, renderCoins [] [],
           updateStats (length (allCoins (state w))) 0 0, showWatchlistEmpty]"
      by (simp add: unfold emit_def warn w1_def)
    moreover have "Call_deriveVisibleCoins \<notin>
        set (showToast (Removed_from_watchlist coinName) ''info'' # warn)"
      using warn(2) by simp
    ultimately have "\<exists>before. calls (toggleFavorite h x w) =
           calls w @ before @ [Call_deriveVisibleCoins, renderCoins [] [],
                               updateStats (length (allCoins (state w))) 0 0, showWatchlistEmpty] \<and>
           Call_deriveVisibleCoins \<notin> set before"
      by blast
    moreover have "favorites (state (toggleFavorite h x w)) = []"
      using a by (simp add: state_toggleFavorite)
    ultimately show ?thesis by blast
  qed
  from turned_on last_removed show ?thesis by blast
qed

text \<open>The theorem at a world without favorites, where the filter is turned on, and at a
  world with the filter on, where the only favorite is removed.\<close>

theorem empty_watchlist_presentation_witness:
  "\<not> watchlistOnly (state no_favorites_world) \<and> favorites (state no_favorites_world) = [] \<and>
   calls (on_watchlist_click sample_host no_favorites_world) =
     [setAttribute ''watchlistToggle'' ''aria-pressed'' ''true'',
      classList_toggle ''watchlistToggle'' ''active-watchlist'' True,
      showWatchlistEmpty, updateStats 3 0 0] \<and>
   watchlistOnly (state last_favorite_world) \<and> ''a'' \<in> set (favorites (state last_favorite_world)) \<and>
   filter (\<lambda>i. i \<noteq> ''a'') (favorites (state last_favorite_world)) = [] \<and>
   sortBy (state last_favorite_world) \<noteq> ''__proto__'' \<and>
   (\<exists>before. calls (toggleFavorite sample_host ''a'' last_favorite_world) =
      calls last_favorite_world @ before @
        [Call_deriveVisibleCoins, renderCoins [] [],
         updateStats (length (allCoins (state last_favorite_world))) 0 0, showWatchlistEmpty] \<and>
      Call_deriveVisibleCoins \<notin> set before)"
proof -
  have off: "\<not> watchlistOnly (state no_favorites_world) \<and> favorites (state no_favorites_world) = []"
    by (simp add: world_defs sample_defs)
  have before: "calls no_favorites_world = []" "length (allCoins (state no_favorites_world)) = 3"
    by (simp_all add: world_defs sample_defs)
  have last: "watchlistOnly (state last_favorite_world) \<and>
      ''a'' \<in> set (favorites (state last_favorite_world)) \<and>
      filter (\<lambda>i. i \<noteq> ''a'') (favorites (state last_favorite_world)) = [] \<and>
      sortBy (state last_favorite_world) \<noteq> ''__proto__''"
    by (simp add: world_defs sample_defs)
  from empty_watchlist_presentation[of no_favorites_world sample_host] off before
  have "calls (on_watchlist_click sample_host no_favorites_world) =
     [setAttribute ''watchlistToggle'' ''aria-pressed'' ''true'',
      classList_toggle ''watchlistToggle'' ''active-watchlist'' True,
      showWatchlistEmpty, updateStats 3 0 0]"
    by simp
  moreover from empty_watchlist_presentation[of last_favorite_world sample_host "''a''"] last
  have "\<exists>before. calls (toggleFavorite sample_host ''a'' last_favorite_world) =
      calls last_favorite_world @ before @
        [Call_deriveVisibleCoins, renderCoins [] [],
         updateStats (length (allCoins (state last_favorite_world))) 0 0, showWatchlistEmpty] \<and>
      Call_deriveVisibleCoins \<notin> set before"
    by blast
  ultimately show ?thesis using off last by blast
qed

text \<open>The filter is on and \<open>"a"\<close> is the only favorite: removing it runs
  \<open>deriveVisibleCoins\<close> before the empty-watchlist presentation is invoked.\<close>

theorem toggleFavorite_derives_counterexample:
  "watchlistOnly (state last_favorite_world) \<and>
   favorites (state last_favorite_world) = [''a''] \<and>
   favorites (state (toggleFavorite sample_host ''a'' last_favorite_world)) = [] \<and>
   calls (toggleFavorite sample_host ''a'' last_favorite_world) =
     [showToast (Removed_from_watchlist ''Alpha'') ''info'', Call_deriveVisibleCoins,
      renderCoins [] [], updateStats 3 0 0, showWatchlistEmpty] \<and>
   \<not> (showWatchlistEmpty \<in> set (calls (toggleFavorite sample_host ''a'' last_favorite_world)) \<and>
      Call_deriveVisibleCoins \<notin> set (calls (toggleFavorite sample_host ''a'' last_favorite_world)))"
proof -
  have "calls (toggleFavorite sample_host ''a'' last_favorite_world) =
     [showToast (Removed_from_watchlist ''Alpha'') ''info'', Call_deriveVisibleCoins,
      renderCoins [] [], updateStats 3 0 0, showWatchlistEmpty]"
    by (simp add: toggleFavorite_def Let_def world_defs sample_defs emit_def saveToStorage_def
        setItem_def renderView_def deriveVisibleCoins_def string_defs sorter_defs)
  moreover have "favorites (state (toggleFavorite sample_host ''a'' last_favorite_world)) = []"
    by (simp add: state_toggleFavorite world_defs sample_defs)
  moreover have "watchlistOnly (state last_favorite_world) \<and>
      favorites (state last_favorite_world) = [''a'']"
    by (simp add: world_defs sample_defs)
  ultimately show ?thesis by simp
qed

end
